theory Spec2Isabelle
  imports Complex_Main
begin

section \<open>Data model of \<^verbatim>\<open>parse_messages.py\<close>\<close>

text \<open>
  The script reads the table \<^verbatim>\<open>PrivateMessages\<close> of an SQLite file and prints its most
  recent row, once or in a polling loop. Everything the script does beyond computing
  values is an effect on the outside world; the model returns the effects in program
  order as a list, next to the value the Python function returns.
\<close>

type_synonym path = string

text \<open>A raised \<^verbatim>\<open>sqlite3.Error\<close>, carrying the text that \<^verbatim>\<open>str(e)\<close> gives.\<close>

datatype sqlite_error = SqliteError string

text \<open>\<^verbatim>\<open>OSError\<close>/\<^verbatim>\<open>IOError\<close> of \<^verbatim>\<open>os.path.getmtime\<close>.\<close>

datatype os_error = OSError

text \<open>
  A row of \<^verbatim>\<open>PrivateMessages\<close> under the storage contract: the integer \<^verbatim>\<open>Id\<close> and
  three text columns. Every text column is nullable in the code (each is guarded by
  \<^verbatim>\<open>or\<close> in \<^verbatim>\<open>display_default_message\<close>), so each is a \<open>string option\<close> with
  \<open>None\<close> for SQL NULL, that is Python's \<^verbatim>\<open>None\<close>. \<open>row_keys\<close> is \<^verbatim>\<open>row.keys()\<close>:
  the names of all the columns of the table in the table's own order, the four of the
  contract among them; \<open>other_cells\<close> gives, for a column beyond those four, the text
  that \<^verbatim>\<open>str\<close> makes of its value.
\<close>

record row =
  Id_col :: int
  Timestamp :: "string option"
  Username :: "string option"
  Message :: "string option"
  row_keys :: "string list"
  other_cells :: "string \<Rightarrow> string"

text \<open>
  What \<^verbatim>\<open>sqlite3.connect\<close> is called with: a plain path (read-write, SQLite's default)
  or a URI with \<^verbatim>\<open>uri=True\<close>.
\<close>

datatype connect_target = PathTarget path | UriTarget string

datatype connection = Connection connect_target

text \<open>
  The observable effects. \<open>Stdout s\<close> and \<open>Stderr s\<close> are one call of \<^verbatim>\<open>print\<close> with
  the text \<open>s\<close> (the newline that \<^verbatim>\<open>print\<close> appends is not part of \<open>s\<close>);
  \<open>Execute\<close> is one run of the \<^verbatim>\<open>SELECT\<close> statement on the open connection;
  \<open>GetMTime p\<close> is one \<^verbatim>\<open>os.path.getmtime(p)\<close>; \<open>Sleep n\<close> is \<^verbatim>\<open>time.sleep(n)\<close>;
  \<open>Close\<close> is \<^verbatim>\<open>conn.close()\<close>.
\<close>

datatype effect =
    Connect connect_target
  | Execute
  | GetMTime path
  | Stdout string
  | Stderr string
  | Sleep nat
  | Close

text \<open>
  The outside world at one moment: the modification time of every path that
  \<^verbatim>\<open>os.path.getmtime\<close> can stat (a finite float, modelled by the rational it denotes;
  only equality of two samples is ever used), and what running
  \<^verbatim>\<open>SELECT * FROM PrivateMessages ORDER BY Timestamp DESC LIMIT 1\<close> on the open
  connection would give at that moment: a raised \<^verbatim>\<open>sqlite3.Error\<close>, or the result set
  in the order SQLite delivers it (empty exactly when the table has no rows).
\<close>

type_synonym filesystem = "path \<rightharpoonup> rat"

type_synonym execute_outcome = "sqlite_error + row list"

record world =
  files :: filesystem
  store :: execute_outcome

section \<open>Python primitives\<close>

text \<open>\<^verbatim>\<open>value or default\<close> on a nullable string: \<^verbatim>\<open>None\<close> and \<^verbatim>\<open>""\<close> are falsy.\<close>

definition py_or :: "string option \<Rightarrow> string \<Rightarrow> string" where
  "py_or v d = (case v of None \<Rightarrow> d | Some s \<Rightarrow> if s = [] then d else s)"

text \<open>\<^verbatim>\<open>str\<close> of an int and of a nullable string, as \<^verbatim>\<open>print\<close> and f-strings apply it.\<close>

definition digit_char :: "nat \<Rightarrow> char" where
  "digit_char d = char_of (48 + d)"

fun digits :: "nat \<Rightarrow> string" where
  "digits n = (if n < 10 then [digit_char n] else digits (n div 10) @ [digit_char (n mod 10)])"

definition str_int :: "int \<Rightarrow> string" where
  "str_int i = (if i < 0 then CHR ''-'' # digits (nat (- i)) else digits (nat i))"

definition str_text :: "string option \<Rightarrow> string" where
  "str_text v = (case v of None \<Rightarrow> ''None'' | Some s \<Rightarrow> s)"

text \<open>
  \<^verbatim>\<open>os.path.join(a, b)\<close> for a relative \<open>b\<close> (both uses join a fixed file name):
  an empty \<open>a\<close> gives \<open>b\<close>, an \<open>a\<close> ending in a slash is not given a second one.
\<close>

definition path_join :: "path \<Rightarrow> path \<Rightarrow> path" where
  "path_join a b = (if a = [] then b else if last a = CHR ''/'' then a @ b else a @ ''/'' @ b)"

text \<open>\<^verbatim>\<open>cursor.fetchone()\<close>: the first row of the result set, \<^verbatim>\<open>None\<close> when it is empty.\<close>

definition fetchone :: "row list \<Rightarrow> row option" where
  "fetchone rows = (case rows of [] \<Rightarrow> None | r # _ \<Rightarrow> Some r)"

definition getmtime :: "filesystem \<Rightarrow> path \<Rightarrow> os_error + rat" where
  "getmtime fs p = (case fs p of None \<Rightarrow> Inl OSError | Some t \<Rightarrow> Inr t)"

section \<open>The functions of the script\<close>

subsection \<open>\<^verbatim>\<open>get_most_recent_message\<close> (lines 33-58)\<close>

text \<open>\<^verbatim>\<open>str(row[key])\<close> for a key of the row.\<close>

definition cell_str :: "row \<Rightarrow> string \<Rightarrow> string" where
  "cell_str r key =
     (if key = ''Id'' then str_int (Id_col r)
      else if key = ''Timestamp'' then str_text (Timestamp r)
      else if key = ''Username'' then str_text (Username r)
      else if key = ''Message'' then str_text (Message r)
      else other_cells r key)"

text \<open>
  Lines 45-52, the detail lines of a row: one \<^verbatim>\<open>key: value\<close> line for each key of
  \<^verbatim>\<open>row.keys()\<close>, in that order. Both branches of the \<^verbatim>\<open>if key == 'Timestamp'\<close>
  print the same text.
\<close>

definition detail_lines :: "row \<Rightarrow> effect list" where
  "detail_lines r = map (\<lambda>key. Stdout (key @ '': '' @ cell_str r key)) (row_keys r)"

text \<open>
  The \<^verbatim>\<open>try\<close> body runs the query and returns the fetched row; the handler of
  \<^verbatim>\<open>sqlite3.Error\<close> prints when \<open>show_details\<close> is set and falls off the end of the
  function, which returns \<^verbatim>\<open>None\<close>.
\<close>

definition get_most_recent_message :: "execute_outcome \<Rightarrow> bool \<Rightarrow> row option \<times> effect list" where
  "get_most_recent_message outcome show_details =
     (case outcome of
        Inr rows \<Rightarrow>
          (let row = fetchone rows in
           (row, Execute #
              (case row of
                 Some r \<Rightarrow>
                   if show_details
                   then Stdout ''Most recent entry from 'PrivateMessages' table:'' # detail_lines r
                   else []
               | None \<Rightarrow> [])))
      | Inl (SqliteError e) \<Rightarrow>
          (None, Execute #
             (if show_details then [Stdout (''Error querying PrivateMessages: '' @ e)] else [])))"

subsection \<open>\<^verbatim>\<open>get_wal_modtime\<close> (lines 59-64)\<close>

definition get_wal_modtime :: "filesystem \<Rightarrow> path \<Rightarrow> rat option" where
  "get_wal_modtime fs wal_path =
     (case getmtime fs wal_path of Inr t \<Rightarrow> Some t | Inl OSError \<Rightarrow> None)"

subsection \<open>\<^verbatim>\<open>display_default_message\<close> (lines 66-72)\<close>

definition display_default_message :: "row option \<Rightarrow> effect list" where
  "display_default_message message_row =
     (case message_row of
        None \<Rightarrow> []
      | Some r \<Rightarrow>
          (let timestamp = py_or (Timestamp r) ''unknown time'';
               username = py_or (Username r) ''unknown user'';
               message = py_or (Message r) ''no message''
           in [Stdout (''['' @ timestamp @ '']['' @ username @ ''] '' @ message)]))"

subsection \<open>\<^verbatim>\<open>watch_mode\<close> (lines 74-121)\<close>

text \<open>The local variables of \<^verbatim>\<open>watch_mode\<close> that live across iterations.\<close>

record watch_state =
  last_timestamp :: "string option"
  last_wal_modtime :: "rat option"
  poll_count :: nat

text \<open>
  Lines 79-86: the seed query and the seed sample. No row (also after a swallowed
  query error) prints and returns before the loop; \<open>None\<close> stands for that return.
\<close>

definition watch_init :: "path \<Rightarrow> world \<Rightarrow> watch_state option \<times> effect list" where
  "watch_init wal_path w =
     (let (latest_message, es) = get_most_recent_message (store w) False in
      case latest_message of
        None \<Rightarrow> (None, es @ [Stdout ''No messages found in database''])
      | Some m \<Rightarrow>
          (Some \<lparr>last_timestamp = Timestamp m,
                 last_wal_modtime = get_wal_modtime (files w) wal_path,
                 poll_count = 0\<rparr>,
           es @ [GetMTime wal_path]))"

text \<open>
  Line 101, \<^verbatim>\<open>current_wal_modtime != last_wal_modtime\<close>: Python's inequality on two
  samples, each a float or \<^verbatim>\<open>None\<close>.
\<close>

definition wal_changed :: "rat option \<Rightarrow> rat option \<Rightarrow> bool" where
  "wal_changed last_wal current_wal = (current_wal \<noteq> last_wal)"

text \<open>Lines 93-117: one iteration of \<^verbatim>\<open>while True\<close>, run against the world of that moment.\<close>

definition tick :: "path \<Rightarrow> watch_state \<Rightarrow> world \<Rightarrow> watch_state \<times> effect list" where
  "tick wal_path s w =
     (let s1 = s\<lparr>poll_count := poll_count s + 1\<rparr>;
          current_wal_modtime = get_wal_modtime (files w) wal_path;
          (s3, es) =
            (if wal_changed (last_wal_modtime s1) current_wal_modtime then
               (let s2 = s1\<lparr>last_wal_modtime := current_wal_modtime\<rparr> in
                if current_wal_modtime \<noteq> None then
                  (let (current_message, qes) = get_most_recent_message (store w) False in
                   case current_message of
                     Some m \<Rightarrow>
                       (let current_timestamp = Timestamp m in
                        if current_timestamp \<noteq> last_timestamp s2
                        then (s2\<lparr>last_timestamp := current_timestamp\<rparr>,
                              qes @ display_default_message (Some m))
                        else (s2, qes))
                   | None \<Rightarrow> (s2, qes))
                else (s2, []))
             else (s1, []))
      in (s3, GetMTime wal_path # es @ [Sleep 5]))"

text \<open>
  The loop has no exit of its own: it ends when \<^verbatim>\<open>KeyboardInterrupt\<close> arrives. The
  list holds the world at each iteration completed before the interrupt.
\<close>

fun watch_loop :: "path \<Rightarrow> watch_state \<Rightarrow> world list \<Rightarrow> watch_state \<times> effect list" where
  "watch_loop wal_path s [] = (s, [])"
| "watch_loop wal_path s (w # ws) =
     (let (s', es) = tick wal_path s w;
          (s'', es') = watch_loop wal_path s' ws
      in (s'', es @ es'))"

definition watch_mode :: "world \<Rightarrow> world list \<Rightarrow> path \<Rightarrow> effect list" where
  "watch_mode start ticks db_dir =
     (let wal_path = path_join db_dir ''messaging.db-wal'';
          (init, es0) = watch_init wal_path start in
      case init of
        None \<Rightarrow> es0
      | Some s0 \<Rightarrow>
          (let (s, es) = watch_loop wal_path s0 ticks in
           es0 @ es @ [Stdout (CHR 0x0A # ''Watch mode stopped.'')]))"

subsection \<open>\<^verbatim>\<open>connect_to_database\<close> (lines 15-31) and \<^verbatim>\<open>main\<close> (lines 123-196)\<close>

text \<open>
  The parsed command line (\<^verbatim>\<open>args\<close>); each field carries the prefix \<open>arg_\<close>, since
  \<open>id\<close> is a constant of HOL.
\<close>

record args =
  arg_directory :: path
  arg_message :: bool
  arg_id :: bool
  arg_time :: bool
  arg_debug :: bool
  arg_watch :: bool

text \<open>
  What the process finds outside: the three directory tests, \<^verbatim>\<open>os.path.abspath\<close>,
  whether \<^verbatim>\<open>sqlite3.connect\<close> on a target raises, the world at the first query, and the
  worlds of the watch iterations before the interrupt.
\<close>

record environment =
  path_exists :: "path \<Rightarrow> bool"
  path_isdir :: "path \<Rightarrow> bool"
  access_R_OK :: "path \<Rightarrow> bool"
  abspath :: "path \<Rightarrow> path"
  sqlite3_connect :: "connect_target \<Rightarrow> sqlite_error + connection"
  start :: world
  ticks :: "world list"

definition connect_to_database :: "environment \<Rightarrow> path \<Rightarrow> bool \<Rightarrow> connection option \<times> effect list" where
  "connect_to_database env db_path read_only =
     (let target =
            (if read_only
             then UriTarget (''file:'' @ abspath env db_path @ ''?mode=ro&immutable=1'')
             else PathTarget db_path)
      in case sqlite3_connect env target of
           Inr conn \<Rightarrow> (Some conn, [Connect target])
         | Inl (SqliteError e) \<Rightarrow>
             (None, [Connect target, Stdout (''Error connecting to database: '' @ e)]))"

text \<open>
  \<^verbatim>\<open>main\<close> returns the exit status of the process and its effects. \<^verbatim>\<open>sys.exit(1)\<close>
  inside the \<^verbatim>\<open>try\<close> raises \<^verbatim>\<open>SystemExit\<close>, which \<^verbatim>\<open>except Exception\<close> does not
  catch, so the \<^verbatim>\<open>finally\<close> closes the connection and the status is 1.
  \<^verbatim>\<open>parser.error\<close> exits with status 2 (of what it writes, the usage line is left out
  and the message kept). Falling off the end of \<^verbatim>\<open>main\<close> is status 0. A row has its
  four columns and \<^verbatim>\<open>get_most_recent_message\<close> catches the errors of the query, so
  no statement of the \<^verbatim>\<open>try\<close> raises into \<^verbatim>\<open>except Exception\<close>; an interrupt is
  taken between two iterations of the watch loop, where \<^verbatim>\<open>watch_mode\<close> catches it.
\<close>

definition main :: "environment \<Rightarrow> args \<Rightarrow> int \<times> effect list" where
  "main env a =
     (if \<not> path_exists env (arg_directory a) then
        (1, [Stderr (''Error: Directory '' @ [CHR 0x27] @ arg_directory a @ [CHR 0x27] @ '' does not exist'')])
      else if \<not> path_isdir env (arg_directory a) then
        (1, [Stderr (''Error: '' @ [CHR 0x27] @ arg_directory a @ [CHR 0x27] @ '' is not a directory'')])
      else if \<not> access_R_OK env (arg_directory a) then
        (1, [Stderr (''Error: Directory '' @ [CHR 0x27] @ arg_directory a @ [CHR 0x27] @ '' is not readable'')])
      else if arg_watch a \<and> (arg_message a \<or> arg_id a \<or> arg_time a \<or> arg_debug a) then
        (2, [Stderr ''--watch/-w cannot be used with other flags''])
      else
        (let db_path = path_join (arg_directory a) ''messaging.db'';
             (conn, ces) = connect_to_database env db_path False in
         case conn of
           None \<Rightarrow> (1, ces)
         | Some c \<Rightarrow>
             if arg_watch a then
               (0, ces @ watch_mode (start env) (ticks env) (arg_directory a) @ [Close])
             else
               (let (recent_message, qes) =
                      get_most_recent_message (store (start env)) (arg_debug a) in
                case recent_message of
                  None \<Rightarrow>
                    (1, ces @ qes @
                        (if arg_debug a then [Stdout ''No messages found in the database.''] else [])
                        @ [Close])
                | Some r \<Rightarrow>
                    (0, ces @ qes @
                        (if arg_message a then [Stdout (str_text (Message r))]
                         else if arg_id a then [Stdout (str_int (Id_col r))]
                         else if arg_time a then [Stdout (str_text (Timestamp r))]
                         else if \<not> arg_debug a then display_default_message (Some r)
                         else [])
                        @ [Close]))))"

section \<open>Concrete inputs\<close>

text \<open>The columns of a table that has exactly those of the storage contract.\<close>

definition contract_keys :: "string list" where
  "contract_keys = [''Id'', ''Timestamp'', ''Username'', ''Message'']"

text \<open>The row of the specification's scenario, a later row, and rows with nulls and an empty text.\<close>

definition row_alice :: row where
  "row_alice = \<lparr>Id_col = 1, Timestamp = Some ''2024-01-01T00:00:00'',
                 Username = Some ''alice'', Message = Some ''hi'',
                 row_keys = contract_keys, other_cells = (\<lambda>key. [])\<rparr>"

definition row_bob :: row where
  "row_bob = \<lparr>Id_col = 2, Timestamp = Some ''2024-01-02T09:30:00'',
               Username = Some ''bob'', Message = Some ''hello'',
               row_keys = contract_keys, other_cells = (\<lambda>key. [])\<rparr>"

definition row_nulls :: row where
  "row_nulls = \<lparr>Id_col = 3, Timestamp = Some ''2024-01-03T00:00:00'',
                 Username = None, Message = None,
                 row_keys = contract_keys, other_cells = (\<lambda>key. [])\<rparr>"

definition row_empty_body :: row where
  "row_empty_body = \<lparr>Id_col = 4, Timestamp = Some ''2024-01-04T00:00:00'',
                      Username = Some ''alice'', Message = Some [],
                      row_keys = contract_keys, other_cells = (\<lambda>key. [])\<rparr>"

text \<open>
  A world in which the write-ahead file of the directory \<^verbatim>\<open>data\<close> has the given
  modification time (or does not exist) and the query has the given outcome.
\<close>

definition world_of :: "rat option \<Rightarrow> execute_outcome \<Rightarrow> world" where
  "world_of mt outcome =
     \<lparr>files = (\<lambda>p. if p = ''data/messaging.db-wal'' then mt else None), store = outcome\<rparr>"

text \<open>An environment in which the directory is fine and every connect succeeds.\<close>

definition env_ok :: "world \<Rightarrow> world list \<Rightarrow> environment" where
  "env_ok w ws =
     \<lparr>path_exists = (\<lambda>p. True), path_isdir = (\<lambda>p. True), access_R_OK = (\<lambda>p. True),
      abspath = (\<lambda>p. ''/home/user/'' @ p),
      sqlite3_connect = (\<lambda>t. Inr (Connection t)),
      start = w, ticks = ws\<rparr>"

text \<open>The command line \<^verbatim>\<open>data\<close> with no flag, or with \<^verbatim>\<open>-w\<close> alone.\<close>

definition args_plain :: "bool \<Rightarrow> args" where
  "args_plain w =
     \<lparr>arg_directory = ''data'', arg_message = False, arg_id = False, arg_time = False,
      arg_debug = False, arg_watch = w\<rparr>"

definition state_seen_alice :: watch_state where
  "state_seen_alice =
     \<lparr>last_timestamp = Timestamp row_alice, last_wal_modtime = Some 100, poll_count = 0\<rparr>"

section \<open>Observations and the specification's wording\<close>

text \<open>The targets of the \<open>Connect\<close> effects of a run, in order.\<close>

fun connect_targets :: "effect list \<Rightarrow> connect_target list" where
  "connect_targets [] = []"
| "connect_targets (Connect t # es) = t # connect_targets es"
| "connect_targets (e # es) = connect_targets es"

text \<open>
  The default line as the specification words it (section 4.4): the three fields between
  the fixed brackets, with the placeholder wherever a field is null. This follows the
  specification, not the code; it is what \<open>display_default_message\<close> is compared with.
\<close>

definition spec_field :: "string option \<Rightarrow> string \<Rightarrow> string" where
  "spec_field v placeholder = (case v of None \<Rightarrow> placeholder | Some s \<Rightarrow> s)"

definition spec_default_line :: "row \<Rightarrow> string" where
  "spec_default_line r =
     ''['' @ spec_field (Timestamp r) ''unknown time'' @ '']['' @
     spec_field (Username r) ''unknown user'' @ ''] '' @ spec_field (Message r) ''no message''"

text \<open>Reading an empty text as a null.\<close>

definition null_if_empty :: "string option \<Rightarrow> string option" where
  "null_if_empty v = (if v = Some [] then None else v)"

section \<open>Auxiliary facts\<close>

declare digits.simps [simp del]


text \<open>A successful stat gives its time, a failing one gives \<^verbatim>\<open>None\<close>.\<close>

lemma get_wal_modtime_lookup: "get_wal_modtime fs p = fs p"
  by (simp add: get_wal_modtime_def getmtime_def split: option.splits)

text \<open>With \<open>show_details\<close> off the accessor prints nothing, whatever the outcome.\<close>

lemma quiet_query:
  "get_most_recent_message outcome False =
     ((case outcome of Inl e \<Rightarrow> None | Inr rows \<Rightarrow> fetchone rows), [Execute])"
  by (simp add: get_most_recent_message_def Let_def
      split: sum.splits sqlite_error.splits option.splits)

lemma display_one_line: "\<exists>line. display_default_message (Some m) = [Stdout line]"
  by (simp add: display_default_message_def Let_def)

lemma display_emits: "\<exists>line. Stdout line \<in> set (display_default_message (Some m))"
  by (simp add: display_default_message_def Let_def)

text \<open>The five paths through one iteration, flattened.\<close>

lemma tick_unfold:
  "tick p s w =
     (let cur = files w p;
          got = (case store w of Inl e \<Rightarrow> None | Inr rows \<Rightarrow> fetchone rows)
      in if cur = last_wal_modtime s then
           (s\<lparr>poll_count := poll_count s + 1\<rparr>, [GetMTime p, Sleep 5])
         else if cur = None then
           (s\<lparr>poll_count := poll_count s + 1, last_wal_modtime := None\<rparr>,
            [GetMTime p, Sleep 5])
         else case got of
           None \<Rightarrow>
             (s\<lparr>poll_count := poll_count s + 1, last_wal_modtime := cur\<rparr>,
              [GetMTime p, Execute, Sleep 5])
         | Some m \<Rightarrow>
             if Timestamp m = last_timestamp s then
               (s\<lparr>poll_count := poll_count s + 1, last_wal_modtime := cur\<rparr>,
                [GetMTime p, Execute, Sleep 5])
             else
               (s\<lparr>poll_count := poll_count s + 1, last_wal_modtime := cur,
                  last_timestamp := Timestamp m\<rparr>,
                [GetMTime p, Execute] @ display_default_message (Some m) @ [Sleep 5]))"
  by (simp add: tick_def wal_changed_def Let_def quiet_query get_wal_modtime_lookup
      split: option.splits)

lemma watch_loop_step:
  "watch_loop p s (w # ws) =
     (fst (watch_loop p (fst (tick p s w)) ws),
      snd (tick p s w) @ snd (watch_loop p (fst (tick p s w)) ws))"
  by (simp add: split_beta Let_def)

lemma tick_sleeps: "count_list (snd (tick p s w)) (Sleep 5) = 1"
  by (simp add: tick_unfold Let_def display_default_message_def split: option.splits)

lemma watch_loop_sleeps: "count_list (snd (watch_loop p s ws)) (Sleep 5) = length ws"
proof (induction ws arbitrary: s)
  case Nil
  show ?case by simp
next
  case (Cons w ws)
  show ?case
    using Cons.IH [of "fst (tick p s w)"] tick_sleeps [of p s w]
    by (simp add: watch_loop_step del: watch_loop.simps)
qed

lemma connect_targets_append:
  "connect_targets (xs @ ys) = connect_targets xs @ connect_targets ys"
  by (induction xs rule: connect_targets.induct) simp_all

lemma tick_connects: "connect_targets (snd (tick p s w)) = []"
  by (simp add: tick_unfold Let_def display_default_message_def split: option.splits)

lemma watch_loop_connects: "connect_targets (snd (watch_loop p s ws)) = []"
proof (induction ws arbitrary: s)
  case Nil
  show ?case by simp
next
  case (Cons w ws)
  show ?case
    using Cons.IH [of "fst (tick p s w)"] tick_connects [of p s w]
    by (simp add: watch_loop_step connect_targets_append del: watch_loop.simps)
qed

lemma watch_mode_connects: "connect_targets (watch_mode w ws d) = []"
  using watch_loop_connects
  by (simp add: watch_mode_def watch_init_def quiet_query Let_def split_beta
      connect_targets_append split: option.splits)

lemma detail_connects: "connect_targets (map (\<lambda>key. Stdout (f key)) ks) = []"
  by (induction ks) simp_all

lemma query_connects: "connect_targets (snd (get_most_recent_message outcome d)) = []"
  by (simp add: get_most_recent_message_def Let_def detail_lines_def detail_connects
      split: sum.splits sqlite_error.splits option.splits)

lemma display_connects: "connect_targets (display_default_message r) = []"
  by (simp add: display_default_message_def Let_def split: option.splits)

section \<open>The watch loop\<close>

text \<open>
  Claim C1. On a tick of the watch loop that issues the store query and gets a message
  back, a line is printed exactly when the timestamp of that message differs from the
  recorded one (equality of the two strings, a null being equal only to a null). When it
  differs, the tick prints the default line of the message and records its timestamp;
  when it is equal, the tick prints nothing and the recorded timestamp stays.
\<close>

theorem watch_emits_iff_timestamp_differs:
  assumes "Execute \<in> set (snd (tick p s w))"
      and "fst (get_most_recent_message (store w) False) = Some m"
  shows "(\<exists>line. Stdout line \<in> set (snd (tick p s w))) = (Timestamp m \<noteq> last_timestamp s)
       \<and> snd (tick p s w) =
           (if Timestamp m \<noteq> last_timestamp s
            then [GetMTime p, Execute] @ display_default_message (Some m) @ [Sleep 5]
            else [GetMTime p, Execute, Sleep 5])
       \<and> last_timestamp (fst (tick p s w)) =
           (if Timestamp m \<noteq> last_timestamp s then Timestamp m else last_timestamp s)"
  using assms display_one_line [of m]
  by (auto simp: tick_unfold Let_def quiet_query split: option.splits if_splits)

text \<open>
  The scenario of the specification: the sentinel moves from 100 to 105 and the latest
  row is still the recorded one, so nothing is printed; and the same tick with a newer
  row, which is printed and recorded.
\<close>

theorem watch_emits_iff_timestamp_differs_witness:
  "snd (tick ''data/messaging.db-wal'' state_seen_alice (world_of (Some 105) (Inr [row_alice])))
     = [GetMTime ''data/messaging.db-wal'', Execute, Sleep 5]
   \<and> last_timestamp
       (fst (tick ''data/messaging.db-wal'' state_seen_alice (world_of (Some 105) (Inr [row_alice]))))
     = Some ''2024-01-01T00:00:00''
   \<and> snd (tick ''data/messaging.db-wal'' state_seen_alice (world_of (Some 105) (Inr [row_bob])))
     = [GetMTime ''data/messaging.db-wal'', Execute,
        Stdout ''[2024-01-02T09:30:00][bob] hello'', Sleep 5]
   \<and> last_timestamp
       (fst (tick ''data/messaging.db-wal'' state_seen_alice (world_of (Some 105) (Inr [row_bob]))))
     = Some ''2024-01-02T09:30:00''"
proof -
  let ?p = "''data/messaging.db-wal''"
  have same_q: "Execute \<in> set (snd (tick ?p state_seen_alice (world_of (Some 105) (Inr [row_alice]))))"
    by (simp add: tick_unfold world_of_def state_seen_alice_def fetchone_def)
  have same_m: "fst (get_most_recent_message (store (world_of (Some 105) (Inr [row_alice]))) False)
                  = Some row_alice"
    by (simp add: quiet_query world_of_def fetchone_def)
  have new_q: "Execute \<in> set (snd (tick ?p state_seen_alice (world_of (Some 105) (Inr [row_bob]))))"
    by (simp add: tick_unfold world_of_def state_seen_alice_def fetchone_def row_alice_def
        row_bob_def display_default_message_def)
  have new_m: "fst (get_most_recent_message (store (world_of (Some 105) (Inr [row_bob]))) False)
                 = Some row_bob"
    by (simp add: quiet_query world_of_def fetchone_def)
  show ?thesis
    using watch_emits_iff_timestamp_differs [OF same_q same_m]
          watch_emits_iff_timestamp_differs [OF new_q new_m]
    by (simp add: state_seen_alice_def row_alice_def row_bob_def display_default_message_def
        py_or_def)
qed

text \<open>
  Claim C2. A tick issues the store query exactly when the sentinel sample of the tick
  differs from the recorded sentinel value and is not \<^verbatim>\<open>None\<close>; it then issues it once.
  So a sample equal to the recorded value, and a sample that changed to \<^verbatim>\<open>None\<close>,
  issue no query.
\<close>

theorem query_issued_iff_sentinel_changed_and_present:
  "(Execute \<in> set (snd (tick p s w)))
     = (wal_changed (last_wal_modtime s) (get_wal_modtime (files w) p)
        \<and> get_wal_modtime (files w) p \<noteq> None)
   \<and> count_list (snd (tick p s w)) Execute
     = (if wal_changed (last_wal_modtime s) (get_wal_modtime (files w) p)
           \<and> get_wal_modtime (files w) p \<noteq> None
        then 1 else 0)"
  by (simp add: tick_unfold wal_changed_def Let_def get_wal_modtime_lookup
      display_default_message_def split: option.splits)

text \<open>
  Claim C3. The change test on two consecutive sentinel samples: absent then absent is
  no change, absent then a value is a change, a value then absent is a change, and two
  values are a change exactly when they differ. That is, change is inequality of the two
  samples with \<^verbatim>\<open>None\<close> taking part, where a sample is \<^verbatim>\<open>None\<close> exactly when the stat
  of the companion file fails.
\<close>

theorem sentinel_transition_table:
  "\<not> wal_changed None None
   \<and> wal_changed None (Some b)
   \<and> wal_changed (Some a) None
   \<and> wal_changed (Some a) (Some b) = (a \<noteq> b)
   \<and> wal_changed x y = (x \<noteq> y)
   \<and> (get_wal_modtime fs p = None) = (getmtime fs p = Inl OSError)
   \<and> wal_changed (get_wal_modtime fs p) (get_wal_modtime fs' p) = (fs' p \<noteq> fs p)"
  by (auto simp: wal_changed_def get_wal_modtime_def getmtime_def split: option.splits)

text \<open>
  Claim C10. On a tick where the sentinel changed to a present value and the accessor
  then returns \<^verbatim>\<open>None\<close> (an empty table, or a query error it swallowed), the tick prints
  nothing, leaves the recorded timestamp alone, records the new sentinel sample, and
  the loop goes on with the next tick.
\<close>

theorem tick_without_row_keeps_polling:
  assumes "get_wal_modtime (files w) p = Some t"
      and "wal_changed (last_wal_modtime s) (Some t)"
      and "fst (get_most_recent_message (store w) False) = None"
  shows "tick p s w = (s\<lparr>poll_count := poll_count s + 1, last_wal_modtime := Some t\<rparr>,
                       [GetMTime p, Execute, Sleep 5])
       \<and> last_timestamp (fst (tick p s w)) = last_timestamp s
       \<and> last_wal_modtime (fst (tick p s w)) = Some t
       \<and> (\<forall>line. Stdout line \<notin> set (snd (tick p s w)))
       \<and> watch_loop p s (w # ws) =
           (fst (watch_loop p (fst (tick p s w)) ws),
            [GetMTime p, Execute, Sleep 5] @ snd (watch_loop p (fst (tick p s w)) ws))"
  using assms
  by (auto simp: tick_unfold Let_def quiet_query wal_changed_def get_wal_modtime_lookup
      split: option.splits prod.splits)

text \<open>An emptied table and a failing query, each followed by a tick that finds a new row.\<close>

theorem tick_without_row_keeps_polling_witness:
  "watch_loop ''data/messaging.db-wal'' state_seen_alice
     [world_of (Some 105) (Inr []), world_of (Some 110) (Inr [row_bob])]
     = (\<lparr>last_timestamp = Some ''2024-01-02T09:30:00'', last_wal_modtime = Some 110,
          poll_count = 2\<rparr>,
        [GetMTime ''data/messaging.db-wal'', Execute, Sleep 5,
         GetMTime ''data/messaging.db-wal'', Execute,
         Stdout ''[2024-01-02T09:30:00][bob] hello'', Sleep 5])
   \<and> tick ''data/messaging.db-wal'' state_seen_alice
        (world_of (Some 105) (Inl (SqliteError ''database is locked'')))
     = (\<lparr>last_timestamp = Some ''2024-01-01T00:00:00'', last_wal_modtime = Some 105,
          poll_count = 1\<rparr>,
        [GetMTime ''data/messaging.db-wal'', Execute, Sleep 5])"
proof -
  let ?p = "''data/messaging.db-wal''"
  let ?w1 = "world_of (Some 105) (Inr [])"
  let ?w2 = "world_of (Some 105) (Inl (SqliteError ''database is locked''))"
  have sample1: "get_wal_modtime (files ?w1) ?p = Some 105"
    by (simp add: get_wal_modtime_lookup world_of_def)
  have sample2: "get_wal_modtime (files ?w2) ?p = Some 105"
    by (simp add: get_wal_modtime_lookup world_of_def)
  have changed: "wal_changed (last_wal_modtime state_seen_alice) (Some 105)"
    by (simp add: wal_changed_def state_seen_alice_def)
  have none1: "fst (get_most_recent_message (store ?w1) False) = None"
    by (simp add: quiet_query world_of_def fetchone_def)
  have none2: "fst (get_most_recent_message (store ?w2) False) = None"
    by (simp add: quiet_query world_of_def)
  show ?thesis
    using tick_without_row_keeps_polling [OF sample1 changed none1,
            of "[world_of (Some 110) (Inr [row_bob])]"]
          tick_without_row_keeps_polling [OF sample2 changed none2, of "[]"]
    by (simp add: state_seen_alice_def row_alice_def row_bob_def tick_unfold world_of_def
        fetchone_def display_default_message_def py_or_def Let_def)
qed

text \<open>
  Claim C6, as worded, fails: the recorded sentinel value is rewritten on every tick whose
  sample differs from it (line 102), before the store is asked and whether or not the
  content changed. Here the sample moves from 100 to 105 while the latest row is the
  recorded one: nothing is printed, the recorded timestamp stays, and the recorded
  sentinel value is 105 after the tick.
\<close>

theorem sentinel_recorded_without_content_change:
  "tick ''data/messaging.db-wal'' state_seen_alice (world_of (Some 105) (Inr [row_alice]))
     = (\<lparr>last_timestamp = Some ''2024-01-01T00:00:00'', last_wal_modtime = Some 105,
          poll_count = 1\<rparr>,
        [GetMTime ''data/messaging.db-wal'', Execute, Sleep 5])
   \<and> last_wal_modtime state_seen_alice = Some 100"
  by (simp add: tick_unfold world_of_def fetchone_def row_alice_def state_seen_alice_def)

text \<open>
  Claim C6, amended. The watch state is set once before the loop, from the seed query and
  the seed sample. After that, the recorded timestamp is the timestamp of the row that
  the query of the tick returned, and is left alone by a tick that issues no query or
  gets no row, so it changes exactly on the ticks that print a message (a changed latest
  timestamp); the recorded sentinel value is the sample of the tick after every tick, so
  it changes exactly on the ticks whose sample differs from it; and a tick whose sample
  equals the recorded value changes neither component and does nothing but stat and
  sleep.
\<close>

theorem watch_state_frame:
  "watch_init p w0 =
     (case fst (get_most_recent_message (store w0) False) of
        None \<Rightarrow> (None, [Execute, Stdout ''No messages found in database''])
      | Some m0 \<Rightarrow> (Some \<lparr>last_timestamp = Timestamp m0,
                            last_wal_modtime = get_wal_modtime (files w0) p,
                            poll_count = 0\<rparr>, [Execute, GetMTime p]))
   \<and> last_wal_modtime (fst (tick p s w)) = get_wal_modtime (files w) p
   \<and> (last_wal_modtime (fst (tick p s w)) \<noteq> last_wal_modtime s)
        = wal_changed (last_wal_modtime s) (get_wal_modtime (files w) p)
   \<and> last_timestamp (fst (tick p s w)) =
       (if wal_changed (last_wal_modtime s) (get_wal_modtime (files w) p)
           \<and> get_wal_modtime (files w) p \<noteq> None
        then (case fst (get_most_recent_message (store w) False) of
                None \<Rightarrow> last_timestamp s
              | Some m \<Rightarrow> Timestamp m)
        else last_timestamp s)
   \<and> (last_timestamp (fst (tick p s w)) \<noteq> last_timestamp s)
        = (\<exists>line. Stdout line \<in> set (snd (tick p s w)))
   \<and> (\<not> wal_changed (last_wal_modtime s) (get_wal_modtime (files w) p)
        \<longrightarrow> tick p s w = (s\<lparr>poll_count := poll_count s + 1\<rparr>, [GetMTime p, Sleep 5]))"
  using display_emits
  by (auto simp: watch_init_def tick_unfold Let_def quiet_query wal_changed_def
      get_wal_modtime_lookup split: option.splits prod.splits)

text \<open>A tick whose sample is the recorded 100, with a newer row waiting in the store.\<close>

theorem watch_state_frame_witness:
  "\<not> wal_changed (last_wal_modtime state_seen_alice)
        (get_wal_modtime (files (world_of (Some 100) (Inr [row_bob]))) ''data/messaging.db-wal'')
   \<and> tick ''data/messaging.db-wal'' state_seen_alice (world_of (Some 100) (Inr [row_bob]))
     = (\<lparr>last_timestamp = Some ''2024-01-01T00:00:00'', last_wal_modtime = Some 100,
          poll_count = 1\<rparr>,
        [GetMTime ''data/messaging.db-wal'', Sleep 5])"
proof -
  have same: "\<not> wal_changed (last_wal_modtime state_seen_alice)
        (get_wal_modtime (files (world_of (Some 100) (Inr [row_bob]))) ''data/messaging.db-wal'')"
    by (simp add: wal_changed_def get_wal_modtime_lookup world_of_def state_seen_alice_def)
  show ?thesis
    using same
          watch_state_frame [of "''data/messaging.db-wal''" "world_of (Some 100) (Inr [row_bob])"
            state_seen_alice "world_of (Some 100) (Inr [row_bob])"]
    by (simp add: state_seen_alice_def row_alice_def)
qed

text \<open>
  Claim C4, as worded, fails: a query error during a tick does not end the loop. In this
  run the first tick's query raises; the second tick is still run, finds the new row and
  prints it; the process ends on the interrupt with status 0.
\<close>

theorem watch_continues_after_query_error:
  "main (env_ok (world_of None (Inr [row_alice]))
           [world_of (Some 100) (Inl (SqliteError ''disk I/O error'')),
            world_of (Some 105) (Inr [row_bob])])
        (args_plain True)
     = (0, [Connect (PathTarget ''data/messaging.db''),
            Execute, GetMTime ''data/messaging.db-wal'',
            GetMTime ''data/messaging.db-wal'', Execute, Sleep 5,
            GetMTime ''data/messaging.db-wal'', Execute,
            Stdout ''[2024-01-02T09:30:00][bob] hello'', Sleep 5,
            Stdout (CHR 0x0A # ''Watch mode stopped.''), Close])"
  by (simp add: main_def env_ok_def args_plain_def world_of_def connect_to_database_def
      watch_mode_def watch_init_def tick_unfold quiet_query get_wal_modtime_lookup
      fetchone_def Let_def path_join_def display_default_message_def py_or_def
      row_alice_def row_bob_def)

text \<open>
  Claim C4, amended. In watch mode a query error during a tick is not fatal. On a tick
  whose query raises, the accessor catches the error and returns \<^verbatim>\<open>None\<close>; the tick
  prints nothing, keeps the recorded timestamp, records the sentinel sample, runs to its
  sleep, and the loop goes on with the next tick. A watch run whose seed query found a
  row runs every tick before the interrupt to its sleep whatever the queries of the
  ticks give, ends with the interrupt message and the closing of the connection, and
  exits with status 0.
\<close>

theorem watch_query_error_not_fatal:
  assumes "store w = Inl e"
  shows "get_most_recent_message (store w) False = (None, [Execute])
       \<and> (\<forall>line. Stdout line \<notin> set (snd (tick p s w)))
       \<and> last_timestamp (fst (tick p s w)) = last_timestamp s
       \<and> last_wal_modtime (fst (tick p s w)) = get_wal_modtime (files w) p
       \<and> snd (tick p s w) =
           (if wal_changed (last_wal_modtime s) (get_wal_modtime (files w) p)
               \<and> get_wal_modtime (files w) p \<noteq> None
            then [GetMTime p, Execute, Sleep 5]
            else [GetMTime p, Sleep 5])
       \<and> watch_loop p s (w # ws) =
           (fst (watch_loop p (fst (tick p s w)) ws),
            snd (tick p s w) @ snd (watch_loop p (fst (tick p s w)) ws))
       \<and> (path_exists env (arg_directory a) \<and> path_isdir env (arg_directory a)
          \<and> access_R_OK env (arg_directory a)
          \<and> arg_watch a
          \<and> \<not> arg_message a \<and> \<not> arg_id a \<and> \<not> arg_time a \<and> \<not> arg_debug a
          \<and> sqlite3_connect env (PathTarget (path_join (arg_directory a) ''messaging.db''))
              = Inr c
          \<and> store (start env) = Inr (m # rest)
          \<longrightarrow> fst (main env a) = 0
              \<and> count_list (snd (main env a)) (Sleep 5) = length (ticks env)
              \<and> (\<exists>es. snd (main env a)
                        = es @ [Stdout (CHR 0x0A # ''Watch mode stopped.''), Close]))"
proof -
  have swallowed: "get_most_recent_message (store w) False = (None, [Execute])"
    using assms by (simp add: quiet_query)
  have one_tick:
    "(\<forall>line. Stdout line \<notin> set (snd (tick p s w)))
       \<and> last_timestamp (fst (tick p s w)) = last_timestamp s
       \<and> last_wal_modtime (fst (tick p s w)) = get_wal_modtime (files w) p
       \<and> snd (tick p s w) =
           (if wal_changed (last_wal_modtime s) (get_wal_modtime (files w) p)
               \<and> get_wal_modtime (files w) p \<noteq> None
            then [GetMTime p, Execute, Sleep 5]
            else [GetMTime p, Sleep 5])"
    using assms
    by (auto simp: tick_unfold Let_def wal_changed_def get_wal_modtime_lookup)
  have run:
    "fst (main env a) = 0
       \<and> count_list (snd (main env a)) (Sleep 5) = length (ticks env)
       \<and> (\<exists>es. snd (main env a) = es @ [Stdout (CHR 0x0A # ''Watch mode stopped.''), Close])"
    if "path_exists env (arg_directory a)" and "path_isdir env (arg_directory a)"
      and "access_R_OK env (arg_directory a)" and "arg_watch a"
      and "\<not> arg_message a" and "\<not> arg_id a" and "\<not> arg_time a" and "\<not> arg_debug a"
      and "sqlite3_connect env (PathTarget (path_join (arg_directory a) ''messaging.db'')) = Inr c"
      and "store (start env) = Inr (m # rest)"
    using that watch_loop_sleeps [of "path_join (arg_directory a) ''messaging.db-wal''"]
    by (simp add: main_def connect_to_database_def watch_mode_def watch_init_def quiet_query
        fetchone_def Let_def split_beta)
  show ?thesis
    using swallowed one_tick run watch_loop_step [of p s w ws]
    by blast
qed

text \<open>
  A tick whose query raises, from the state that has seen the first row; and a watch run
  of three ticks, every query of which raises.
\<close>

theorem watch_query_error_not_fatal_witness:
  "tick ''data/messaging.db-wal'' state_seen_alice
        (world_of (Some 105) (Inl (SqliteError ''disk I/O error'')))
     = (\<lparr>last_timestamp = Some ''2024-01-01T00:00:00'', last_wal_modtime = Some 105,
          poll_count = 1\<rparr>,
        [GetMTime ''data/messaging.db-wal'', Execute, Sleep 5])
   \<and> fst (main (env_ok (world_of None (Inr [row_alice]))
               [world_of (Some 100) (Inl (SqliteError ''disk I/O error'')),
                world_of (Some 105) (Inl (SqliteError ''disk I/O error'')),
                world_of (Some 110) (Inl (SqliteError ''disk I/O error''))])
            (args_plain True)) = 0
   \<and> count_list
        (snd (main (env_ok (world_of None (Inr [row_alice]))
               [world_of (Some 100) (Inl (SqliteError ''disk I/O error'')),
                world_of (Some 105) (Inl (SqliteError ''disk I/O error'')),
                world_of (Some 110) (Inl (SqliteError ''disk I/O error''))])
            (args_plain True))) (Sleep 5) = 3"
proof -
  let ?p = "''data/messaging.db-wal''"
  let ?w = "world_of (Some 105) (Inl (SqliteError ''disk I/O error''))"
  let ?e = "env_ok (world_of None (Inr [row_alice]))
               [world_of (Some 100) (Inl (SqliteError ''disk I/O error'')),
                world_of (Some 105) (Inl (SqliteError ''disk I/O error'')),
                world_of (Some 110) (Inl (SqliteError ''disk I/O error''))]"
  have raised: "store ?w = Inl (SqliteError ''disk I/O error'')"
    by (simp add: world_of_def)
  have checks: "path_exists ?e (arg_directory (args_plain True))
      \<and> path_isdir ?e (arg_directory (args_plain True))
      \<and> access_R_OK ?e (arg_directory (args_plain True))
      \<and> arg_watch (args_plain True)
      \<and> \<not> arg_message (args_plain True) \<and> \<not> arg_id (args_plain True)
      \<and> \<not> arg_time (args_plain True) \<and> \<not> arg_debug (args_plain True)
      \<and> sqlite3_connect ?e (PathTarget (path_join (arg_directory (args_plain True)) ''messaging.db''))
          = Inr (Connection (PathTarget ''data/messaging.db''))
      \<and> store (start ?e) = Inr (row_alice # [])"
    by (simp add: env_ok_def args_plain_def path_join_def world_of_def)
  have fact: "last_timestamp (fst (tick ?p state_seen_alice ?w)) = last_timestamp state_seen_alice
      \<and> last_wal_modtime (fst (tick ?p state_seen_alice ?w)) = get_wal_modtime (files ?w) ?p
      \<and> snd (tick ?p state_seen_alice ?w) =
           (if wal_changed (last_wal_modtime state_seen_alice) (get_wal_modtime (files ?w) ?p)
               \<and> get_wal_modtime (files ?w) ?p \<noteq> None
            then [GetMTime ?p, Execute, Sleep 5]
            else [GetMTime ?p, Sleep 5])
      \<and> fst (main ?e (args_plain True)) = 0
      \<and> count_list (snd (main ?e (args_plain True))) (Sleep 5) = length (ticks ?e)"
    using watch_query_error_not_fatal
            [where p = ?p and s = state_seen_alice and ws = "[]" and env = ?e
               and a = "args_plain True"
               and c = "Connection (PathTarget ''data/messaging.db'')"
               and m = row_alice and rest = "[]", OF raised]
          checks
    by blast
  have count: "poll_count (fst (tick ?p state_seen_alice ?w)) = 1"
    by (simp add: tick_unfold world_of_def state_seen_alice_def)
  have "fst (tick ?p state_seen_alice ?w)
          = \<lparr>last_timestamp = Some ''2024-01-01T00:00:00'', last_wal_modtime = Some 105,
              poll_count = 1\<rparr>"
    using fact count
    by (cases "fst (tick ?p state_seen_alice ?w)")
       (simp add: state_seen_alice_def row_alice_def get_wal_modtime_lookup world_of_def)
  moreover have "snd (tick ?p state_seen_alice ?w) = [GetMTime ?p, Execute, Sleep 5]"
    using fact
    by (simp add: state_seen_alice_def wal_changed_def get_wal_modtime_lookup world_of_def)
  moreover have "fst (main ?e (args_plain True)) = 0
      \<and> count_list (snd (main ?e (args_plain True))) (Sleep 5) = 3"
    using fact by (simp add: env_ok_def)
  ultimately show ?thesis
    by (simp add: prod_eq_iff)
qed

section \<open>The accessor\<close>

text \<open>
  Claim C5, as worded, fails: the accessor catches every \<^verbatim>\<open>sqlite3.Error\<close> and returns
  \<^verbatim>\<open>None\<close>. Called as the watch loop calls it, a missing table gives the same return
  value and the same effects as an empty table.
\<close>

theorem query_error_same_as_no_data:
  "get_most_recent_message (Inl (SqliteError ''no such table: PrivateMessages'')) False
     = get_most_recent_message (Inr []) False"
  by (simp add: get_most_recent_message_def fetchone_def)

text \<open>
  Claim C5, amended. On a table with no rows the accessor returns \<^verbatim>\<open>None\<close> and prints
  nothing. On a raised \<^verbatim>\<open>sqlite3.Error\<close> it returns \<^verbatim>\<open>None\<close> as well: with
  \<open>show_details\<close> off the caller cannot tell the failure from the empty table, with it
  on the only difference is the printed error line.
\<close>

theorem latest_absent_on_empty_and_on_error:
  "get_most_recent_message (Inr []) show_details = (None, [Execute])
   \<and> fst (get_most_recent_message (Inl err) show_details) = None
   \<and> get_most_recent_message (Inl err) False = get_most_recent_message (Inr []) False
   \<and> get_most_recent_message (Inl (SqliteError msg)) True
       = (None, [Execute, Stdout (''Error querying PrivateMessages: '' @ msg)])"
  by (simp add: get_most_recent_message_def fetchone_def split: sqlite_error.splits)

section \<open>Presentation\<close>

text \<open>
  Claim C8, as worded, fails: the placeholder is substituted by Python's \<^verbatim>\<open>or\<close>, which
  also replaces an empty text. A row whose body is the empty string, not null, prints
  the placeholder where the specification's line has the empty body.
\<close>

theorem empty_body_gets_placeholder:
  "display_default_message (Some row_empty_body)
     = [Stdout ''[2024-01-04T00:00:00][alice] no message'']
   \<and> spec_default_line row_empty_body = ''[2024-01-04T00:00:00][alice] ''"
  by (simp add: display_default_message_def py_or_def row_empty_body_def
      spec_default_line_def spec_field_def)

text \<open>
  Claim C8, amended. The default output of a row is the one line
  \<^verbatim>\<open>[<timestamp>][<sender>] <body>\<close> with the placeholder \<^verbatim>\<open>unknown time\<close>,
  \<^verbatim>\<open>unknown user\<close>, \<^verbatim>\<open>no message\<close> for each field that is null or the empty string;
  so it is the specification's line whenever no field is an empty string. The row of
  the scenario prints \<^verbatim>\<open>[2024-01-01T00:00:00][alice] hi\<close>, and a row with null
  sender and null body prints both placeholders.
\<close>

theorem default_format_line:
  "display_default_message (Some r) =
     [Stdout (spec_default_line (r\<lparr>Timestamp := null_if_empty (Timestamp r),
                                     Username := null_if_empty (Username r),
                                     Message := null_if_empty (Message r)\<rparr>))]
   \<and> (Timestamp r \<noteq> Some [] \<and> Username r \<noteq> Some [] \<and> Message r \<noteq> Some []
        \<longrightarrow> display_default_message (Some r) = [Stdout (spec_default_line r)])
   \<and> display_default_message (Some row_alice) = [Stdout ''[2024-01-01T00:00:00][alice] hi'']
   \<and> display_default_message (Some row_nulls)
        = [Stdout ''[2024-01-03T00:00:00][unknown user] no message'']
   \<and> display_default_message
        (Some \<lparr>Id_col = i, Timestamp = None, Username = None, Message = None,
                row_keys = ks, other_cells = cells\<rparr>)
        = [Stdout ''[unknown time][unknown user] no message'']"
  by (auto simp: display_default_message_def py_or_def spec_default_line_def spec_field_def
      null_if_empty_def row_alice_def row_nulls_def split: option.splits)

text \<open>The row with a null sender and a null body has no empty string in it.\<close>

theorem default_format_line_witness:
  "Timestamp row_nulls \<noteq> Some [] \<and> Username row_nulls \<noteq> Some [] \<and> Message row_nulls \<noteq> Some []
   \<and> display_default_message (Some row_nulls) = [Stdout (spec_default_line row_nulls)]
   \<and> spec_default_line row_nulls = ''[2024-01-03T00:00:00][unknown user] no message''"
proof -
  have fields: "Timestamp row_nulls \<noteq> Some [] \<and> Username row_nulls \<noteq> Some []
                \<and> Message row_nulls \<noteq> Some []"
    by (simp add: row_nulls_def)
  have line: "spec_default_line row_nulls = ''[2024-01-03T00:00:00][unknown user] no message''"
    by (simp add: spec_default_line_def spec_field_def row_nulls_def)
  show ?thesis
    using fields line default_format_line [of row_nulls 0]
    by (simp add: row_nulls_def null_if_empty_def spec_default_line_def spec_field_def)
qed

section \<open>The process\<close>

text \<open>
  Claim C7, as worded, fails for watch mode: on an empty table \<^verbatim>\<open>watch_mode\<close> prints
  and returns, \<^verbatim>\<open>main\<close> falls off its end, and the exit status is 0.
\<close>

theorem watch_no_data_exit_zero:
  "main (env_ok (world_of None (Inr [])) []) (args_plain True)
     = (0, [Connect (PathTarget ''data/messaging.db''), Execute,
            Stdout ''No messages found in database'', Close])"
  by (simp add: main_def env_ok_def args_plain_def world_of_def connect_to_database_def
      watch_mode_def watch_init_def quiet_query fetchone_def Let_def path_join_def)

text \<open>
  Claim C7, amended. When the store opens and holds no rows, a one-shot invocation exits
  with status 1 (printing only under \<^verbatim>\<open>--debug\<close>), and a watch invocation prints
  \<^verbatim>\<open>No messages found in database\<close>, does not enter the loop, and exits with status 0.
  Both close the connection.
\<close>

theorem no_data_exit_status:
  assumes "path_exists env (arg_directory a)"
      and "path_isdir env (arg_directory a)"
      and "access_R_OK env (arg_directory a)"
      and "\<not> (arg_watch a \<and> (arg_message a \<or> arg_id a \<or> arg_time a \<or> arg_debug a))"
      and "sqlite3_connect env (PathTarget (path_join (arg_directory a) ''messaging.db'')) = Inr c"
      and "store (start env) = Inr []"
  shows "main env a =
     (if arg_watch a
      then (0, [Connect (PathTarget (path_join (arg_directory a) ''messaging.db'')),
                Execute, Stdout ''No messages found in database'', Close])
      else (1, [Connect (PathTarget (path_join (arg_directory a) ''messaging.db'')), Execute]
               @ (if arg_debug a then [Stdout ''No messages found in the database.''] else [])
               @ [Close]))"
  using assms
  by (auto simp: main_def connect_to_database_def watch_mode_def watch_init_def quiet_query
      get_most_recent_message_def fetchone_def Let_def)

text \<open>The empty store, asked once without flags and once with \<^verbatim>\<open>-w\<close>.\<close>

theorem no_data_exit_status_witness:
  "main (env_ok (world_of None (Inr [])) []) (args_plain False)
     = (1, [Connect (PathTarget ''data/messaging.db''), Execute, Close])
   \<and> fst (main (env_ok (world_of None (Inr [])) []) (args_plain True)) = 0"
  using no_data_exit_status [of "env_ok (world_of None (Inr [])) []" "args_plain False"
          "Connection (PathTarget ''data/messaging.db'')"]
        no_data_exit_status [of "env_ok (world_of None (Inr [])) []" "args_plain True"
          "Connection (PathTarget ''data/messaging.db'')"]
  by (simp add: env_ok_def args_plain_def world_of_def path_join_def)

text \<open>
  Claim C9, as worded, fails: \<^verbatim>\<open>main\<close> passes \<^verbatim>\<open>read_only=False\<close> whatever the mode.
  A one-shot invocation without flags connects to the plain path, read-write.
\<close>

theorem one_shot_connects_read_write:
  "snd (main (env_ok (world_of None (Inr [row_alice])) []) (args_plain False))
     = [Connect (PathTarget ''data/messaging.db''), Execute,
        Stdout ''[2024-01-01T00:00:00][alice] hi'', Close]"
  by (simp add: main_def env_ok_def args_plain_def world_of_def connect_to_database_def
      get_most_recent_message_def fetchone_def Let_def path_join_def
      display_default_message_def py_or_def row_alice_def)

text \<open>
  Claim C9, amended. Every invocation that gets past the checks of the directory and of
  the flags, one-shot or watch, connects exactly once, to the plain path of
  \<^verbatim>\<open>messaging.db\<close> in the directory, which is the read-write mode; no invocation uses
  the read-only, immutable URI. \<^verbatim>\<open>connect_to_database\<close> would use that URI if it were
  called with \<^verbatim>\<open>read_only=True\<close>.
\<close>

theorem main_connects_read_write:
  "connect_targets (snd (main env a)) =
     (if path_exists env (arg_directory a) \<and> path_isdir env (arg_directory a)
         \<and> access_R_OK env (arg_directory a)
         \<and> \<not> (arg_watch a \<and> (arg_message a \<or> arg_id a \<or> arg_time a \<or> arg_debug a))
      then [PathTarget (path_join (arg_directory a) ''messaging.db'')]
      else [])
   \<and> connect_targets (snd (connect_to_database env db_path False)) = [PathTarget db_path]
   \<and> connect_targets (snd (connect_to_database env db_path True))
       = [UriTarget (''file:'' @ abspath env db_path @ ''?mode=ro&immutable=1'')]"
proof -
  have conn: "connect_targets (snd (connect_to_database env db_path ro)) =
      [if ro then UriTarget (''file:'' @ abspath env db_path @ ''?mode=ro&immutable=1'')
       else PathTarget db_path]" for db_path ro
    by (simp add: connect_to_database_def Let_def split: sum.splits sqlite_error.splits)
  have run: "connect_targets (snd (main env a)) =
     (if path_exists env (arg_directory a) \<and> path_isdir env (arg_directory a)
         \<and> access_R_OK env (arg_directory a)
         \<and> \<not> (arg_watch a \<and> (arg_message a \<or> arg_id a \<or> arg_time a \<or> arg_debug a))
      then connect_targets
             (snd (connect_to_database env (path_join (arg_directory a) ''messaging.db'') False))
      else [])"
    by (simp add: main_def Let_def split_beta connect_targets_append watch_mode_connects
        query_connects display_connects split: option.splits)
  show ?thesis
    using conn [of db_path False] conn [of db_path True]
          conn [of "path_join (arg_directory a) ''messaging.db''" False]
    by (simp add: run)
qed

end
